theory Spec2Isabelle
  imports Complex_Main "HOL-Library.Log_Nat"
begin

section \<open>Data model\<close>

text \<open>
  The tables of \<^verbatim>\<open>tasks/models.py\<close> and \<^verbatim>\<open>users/models.py\<close>. A table is the list of
  its rows in creation order; primary keys are natural numbers. A foreign key is the
  primary key of the row it points to, and a nullable column is an \<open>option\<close>.
  A \<^verbatim>\<open>DateTimeField\<close> is the number of microseconds since the epoch (the resolution of
  Python's \<^verbatim>\<open>datetime\<close>), a \<^verbatim>\<open>DecimalField\<close> is the rational number it denotes.
\<close>

datatype status = Requested | InProgress | Completed | Rejected | Vanished

record worker =
  worker_id :: nat
  username :: string
  skills :: string
  hourly_rate :: rat
  is_available :: bool

record task =
  task_id :: nat
  request_id :: "string option"
  customer :: nat
  task_worker :: "nat option"
  title :: string
  description :: string
  start_time :: int
  end_time :: int
  location :: string
  task_status :: status
  rating :: "int option"
  task_hourly_rate :: "rat option"
  total_cost :: "rat option"

text \<open>
  The exceptions the modelled views can raise, and what a view hands back: a redirect
  with a flash message of level success or warning, a plain redirect, the form shown
  again with its errors, or an unhandled exception.
\<close>

datatype error =
    AttributeError
  | TypeError
  | KeyError
  | ZeroDivisionError
  | Http404
  | DoesNotExist
  | RelatedObjectDoesNotExist

datatype response =
    Success string
  | Warning string
  | Redirected
  | FormInvalid
  | Raised error

section \<open>Availability filter (\<^verbatim>\<open>TaskCreateView.form_valid\<close>, lines 53 to 66)\<close>

text \<open>\<^verbatim>\<open>Worker.objects.filter(is_available=True)\<close>\<close>

definition flagged_available :: "worker list \<Rightarrow> worker list" where
  "flagged_available ws = filter is_available ws"

text \<open>
  \<^verbatim>\<open>Task.objects.filter(worker__in=available_workers, status="in-progress",
  start_time__lt=end_time, end_time__gt=start_time)\<close>
\<close>

definition conflicting_tasks :: "task list \<Rightarrow> worker list \<Rightarrow> int \<Rightarrow> int \<Rightarrow> task list" where
  "conflicting_tasks ts avail start_t end_t =
     filter (\<lambda>t. task_worker t \<in> set (map (\<lambda>w. Some (worker_id w)) avail)
                \<and> task_status t = InProgress
                \<and> start_time t < end_t
                \<and> end_time t > start_t) ts"

text \<open>
  \<^verbatim>\<open>available_workers.exclude(id__in=[task.worker.id for task in conflicting_tasks])\<close>.
  Every conflicting task has a worker, by the \<^verbatim>\<open>worker__in\<close> condition.
\<close>

definition available_workers :: "worker list \<Rightarrow> task list \<Rightarrow> int \<Rightarrow> int \<Rightarrow> worker list" where
  "available_workers ws ts start_t end_t =
     (let avail = flagged_available ws;
          ids = map task_worker (conflicting_tasks ts avail start_t end_t)
      in filter (\<lambda>w. Some (worker_id w) \<notin> set ids) avail)"

text \<open>The overlap test of the specification, for one stored task and one window.\<close>

definition overlaps :: "task \<Rightarrow> int \<Rightarrow> int \<Rightarrow> bool" where
  "overlaps t start_t end_t \<longleftrightarrow> start_time t < end_t \<and> end_time t > start_t"

definition has_overlapping_in_progress :: "task list \<Rightarrow> worker \<Rightarrow> int \<Rightarrow> int \<Rightarrow> bool" where
  "has_overlapping_in_progress ts w start_t end_t \<longleftrightarrow>
     list_ex (\<lambda>t. task_worker t = Some (worker_id w) \<and> task_status t = InProgress
                  \<and> overlaps t start_t end_t) ts"


section \<open>Skill matcher (\<^verbatim>\<open>TaskCreateView.form_valid\<close>, lines 69 to 84)\<close>

text \<open>
  \<^verbatim>\<open>skills__icontains=query\<close>: the skills column contains the query as a substring,
  letters of the ASCII range compared without case.
\<close>

definition lower_char :: "char \<Rightarrow> char" where
  "lower_char c =
     (let n = (of_char c :: nat) in if 65 \<le> n \<and> n \<le> 90 then char_of (n + 32) else c)"

definition lower :: "string \<Rightarrow> string" where
  "lower s = map lower_char s"

fun starts_with :: "string \<Rightarrow> string \<Rightarrow> bool" where
  "starts_with s [] = True"
| "starts_with [] (y # ys) = False"
| "starts_with (x # xs) (y # ys) = (x = y \<and> starts_with xs ys)"

fun contains :: "string \<Rightarrow> string \<Rightarrow> bool" where
  "contains [] needle = (needle = [])"
| "contains (x # xs) needle = (starts_with (x # xs) needle \<or> contains xs needle)"

definition icontains :: "string \<Rightarrow> string \<Rightarrow> bool" where
  "icontains field query = contains (lower field) (lower query)"

definition matching_workers :: "worker list \<Rightarrow> string \<Rightarrow> worker list" where
  "matching_workers avail query = filter (\<lambda>w. icontains (skills w) query) avail"

text \<open>
  The annotations: \<^verbatim>\<open>tasks_completed=Count("task", filter=Q(task__status="completed"))\<close>
  and \<^verbatim>\<open>rating=Avg("task__rating")\<close>, the average of the non-null ratings of all the
  worker's tasks, null when there is none.
\<close>

definition tasks_of :: "task list \<Rightarrow> worker \<Rightarrow> task list" where
  "tasks_of ts w = filter (\<lambda>t. task_worker t = Some (worker_id w)) ts"

definition tasks_completed :: "task list \<Rightarrow> worker \<Rightarrow> nat" where
  "tasks_completed ts w = length (filter (\<lambda>t. task_status t = Completed) (tasks_of ts w))"

definition avg_rating :: "task list \<Rightarrow> worker \<Rightarrow> rat option" where
  "avg_rating ts w =
     (let rs = List.map_filter rating (tasks_of ts w)
      in if rs = [] then None else Some (of_int (sum_list rs) / of_nat (length rs)))"

text \<open>
  \<^verbatim>\<open>order_by("-tasks_completed", "-rating")\<close>. A null average sorts below every number
  (the order of SQLite, the database of a default Django project); rows that tie keep
  the order of the queryset.
\<close>

fun rating_gt :: "rat option \<Rightarrow> rat option \<Rightarrow> bool" where
  "rating_gt (Some a) (Some b) = (a > b)"
| "rating_gt (Some a) None = True"
| "rating_gt None r = False"

definition ranks_before :: "task list \<Rightarrow> worker \<Rightarrow> worker \<Rightarrow> bool" where
  "ranks_before ts w1 w2 \<longleftrightarrow>
     tasks_completed ts w1 > tasks_completed ts w2
     \<or> (tasks_completed ts w1 = tasks_completed ts w2
        \<and> rating_gt (avg_rating ts w1) (avg_rating ts w2))"

fun insert_desc :: "('a \<Rightarrow> 'a \<Rightarrow> bool) \<Rightarrow> 'a \<Rightarrow> 'a list \<Rightarrow> 'a list" where
  "insert_desc gt x [] = [x]"
| "insert_desc gt x (y # ys) = (if gt y x then y # insert_desc gt x ys else x # y # ys)"

definition sort_desc :: "('a \<Rightarrow> 'a \<Rightarrow> bool) \<Rightarrow> 'a list \<Rightarrow> 'a list" where
  "sort_desc gt xs = foldr (insert_desc gt) xs []"

definition order_by_rank :: "task list \<Rightarrow> worker list \<Rightarrow> worker list" where
  "order_by_rank ts ws = sort_desc (ranks_before ts) ws"

text \<open>
  \<^verbatim>\<open>matching_workers.annotate(...).order_by(...).filter(skills__icontains=query)[:5]\<close>
\<close>

definition skill_matcher :: "task list \<Rightarrow> worker list \<Rightarrow> string \<Rightarrow> worker list" where
  "skill_matcher ts avail query =
     take 5 (filter (\<lambda>w. icontains (skills w) query)
               (order_by_rank ts (matching_workers avail query)))"

section \<open>Similarity recommender (\<^verbatim>\<open>tasks/recommendations.py\<close>)\<close>

text \<open>
  A Python dictionary is the list of its items in insertion order: \<^verbatim>\<open>d[k] = v\<close>
  overwrites the value of a key that is present and appends a key that is not.
\<close>

fun dict_set :: "('k \<times> 'v) list \<Rightarrow> 'k \<Rightarrow> 'v \<Rightarrow> ('k \<times> 'v) list" where
  "dict_set [] k v = [(k, v)]"
| "dict_set ((k', v') # d) k v = (if k' = k then (k', v) # d else (k', v') # dict_set d k v)"

text \<open>
  \<^verbatim>\<open>Task.objects.filter(worker__id=worker_id, status="completed")\<close>, in the order
  of \<^verbatim>\<open>Meta.ordering = ["-created_time"]\<close>: the newest row first.
\<close>

definition completed_tasks_for :: "task list \<Rightarrow> nat \<Rightarrow> task list" where
  "completed_tasks_for ts wid =
     filter (\<lambda>t. task_worker t = Some wid \<and> task_status t = Completed) (rev ts)"

text \<open>
  \<^verbatim>\<open>for task in worker_tasks: ratings[task.customer.id] = task.rating\<close>.
  The rating column is nullable, so a value of the dictionary may be \<^verbatim>\<open>None\<close>.
\<close>

definition ratings_of :: "task list \<Rightarrow> nat \<Rightarrow> (nat \<times> int option) list" where
  "ratings_of ts wid =
     fold (\<lambda>t d. dict_set d (customer t) (rating t)) (completed_tasks_for ts wid) []"

text \<open>\<^verbatim>\<open>sum(ratings.values())\<close>: adding \<^verbatim>\<open>None\<close> to a number raises \<^verbatim>\<open>TypeError\<close>.\<close>

fun py_sum :: "int option list \<Rightarrow> int \<Rightarrow> error + int" where
  "py_sum [] acc = Inr acc"
| "py_sum (None # vs) acc = Inl TypeError"
| "py_sum (Some v # vs) acc = py_sum vs (acc + v)"

text \<open>
  \<^verbatim>\<open>sum(ratings.values()) / len(ratings)\<close>. Python's floating-point numbers are
  idealised as real numbers in this section.
\<close>

definition mean_rating :: "(nat \<times> int option) list \<Rightarrow> error + real" where
  "mean_rating ratings =
     (case py_sum (map snd ratings) 0 of
        Inl e \<Rightarrow> Inl e
      | Inr s \<Rightarrow> if length ratings = 0 then Inl ZeroDivisionError
                else Inr (real_of_int s / real (length ratings)))"

text \<open>
  One round of the loop over \<^verbatim>\<open>worker_ratings.items()\<close> (lines 28 to 36): the three
  accumulators change only for a customer that is a key of \<^verbatim>\<open>ratings\<close>; subtracting
  from \<^verbatim>\<open>None\<close> raises \<^verbatim>\<open>TypeError\<close>.
\<close>

definition pearson_step ::
  "(nat \<times> int option) list \<Rightarrow> nat \<times> int option \<Rightarrow> real \<times> real \<times> real
     \<Rightarrow> error + real \<times> real \<times> real" where
  "pearson_step ratings item acc =
     (case item of (customer_id, rating') \<Rightarrow>
      case acc of (numerator, denominator1, denominator2) \<Rightarrow>
      case map_of ratings customer_id of
        None \<Rightarrow> Inr (numerator, denominator1, denominator2)
      | Some other \<Rightarrow>
          (case mean_rating ratings of
             Inl e \<Rightarrow> Inl e
           | Inr m \<Rightarrow>
               (case rating' of
                  None \<Rightarrow> Inl TypeError
                | Some a \<Rightarrow>
                    (case other of
                       None \<Rightarrow> Inl TypeError
                     | Some b \<Rightarrow>
                         Inr (numerator + (real_of_int a - m) * (real_of_int b - m),
                              denominator1 + (real_of_int a - m)\<^sup>2,
                              denominator2 + (real_of_int b - m)\<^sup>2)))))"

fun pearson_loop ::
  "(nat \<times> int option) list \<Rightarrow> (nat \<times> int option) list \<Rightarrow> real \<times> real \<times> real
     \<Rightarrow> error + real \<times> real \<times> real" where
  "pearson_loop ratings [] acc = Inr acc"
| "pearson_loop ratings (item # items) acc =
     (case pearson_step ratings item acc of
        Inl e \<Rightarrow> Inl e
      | Inr acc' \<Rightarrow> pearson_loop ratings items acc')"

text \<open>Lines 25 to 41: the similarity of the seed's ratings and one candidate's ratings.\<close>

definition similarity ::
  "(nat \<times> int option) list \<Rightarrow> (nat \<times> int option) list \<Rightarrow> error + real" where
  "similarity worker_ratings ratings =
     (case pearson_loop ratings worker_ratings (0, 0, 0) of
        Inl e \<Rightarrow> Inl e
      | Inr (numerator, denominator1, denominator2) \<Rightarrow>
          Inr (if denominator1 = 0 \<or> denominator2 = 0 then 0
               else numerator / sqrt (denominator1 * denominator2)))"

text \<open>The loop over \<^verbatim>\<open>available_workers\<close> (lines 17 to 43).\<close>

fun similarities_loop ::
  "task list \<Rightarrow> (nat \<times> int option) list \<Rightarrow> nat \<Rightarrow> worker list \<Rightarrow> (nat \<times> real) list
     \<Rightarrow> error + (nat \<times> real) list" where
  "similarities_loop ts worker_ratings seed [] similarities = Inr similarities"
| "similarities_loop ts worker_ratings seed (w # ws) similarities =
     (if worker_id w \<noteq> seed then
        (case similarity worker_ratings (ratings_of ts (worker_id w)) of
           Inl e \<Rightarrow> Inl e
         | Inr s \<Rightarrow>
             similarities_loop ts worker_ratings seed ws (dict_set similarities (worker_id w) s))
      else similarities_loop ts worker_ratings seed ws similarities)"

text \<open>\<^verbatim>\<open>Worker.objects.get(id=worker_id)\<close> for each of the chosen ids (lines 49 to 52).\<close>

fun get_workers :: "worker list \<Rightarrow> nat list \<Rightarrow> error + worker list" where
  "get_workers table [] = Inr []"
| "get_workers table (i # ids) =
     (case find (\<lambda>w. worker_id w = i) table of
        None \<Rightarrow> Inl DoesNotExist
      | Some w \<Rightarrow>
          (case get_workers table ids of
             Inl e \<Rightarrow> Inl e
           | Inr rest \<Rightarrow> Inr (w # rest)))"

text \<open>
  The whole function. \<^verbatim>\<open>sorted(..., key=lambda x: x[1], reverse=True)\<close> is stable:
  items of equal similarity keep their order.
\<close>

definition pearson_correlation_coefficient ::
  "worker list \<Rightarrow> task list \<Rightarrow> nat \<Rightarrow> worker list \<Rightarrow> nat \<Rightarrow> error + worker list" where
  "pearson_correlation_coefficient table ts seed avail n =
     (case similarities_loop ts (ratings_of ts seed) seed avail [] of
        Inl e \<Rightarrow> Inl e
      | Inr similarities \<Rightarrow>
          get_workers table
            (map fst (take n (sort_desc (\<lambda>x y. snd x > snd y) similarities))))"

text \<open>
  The formula of the specification, for two rating histories without null ratings:
  the sums range over the customers both workers have a rating from, and both
  deviations are taken from the mean of all the candidate's ratings.
\<close>

definition spec_mean :: "(nat \<times> int) list \<Rightarrow> real" where
  "spec_mean cand = real_of_int (sum_list (map snd cand)) / real (length cand)"

definition spec_deviations :: "(nat \<times> int) list \<Rightarrow> (nat \<times> int) list \<Rightarrow> (real \<times> real) list" where
  "spec_deviations seed cand =
     List.map_filter
       (\<lambda>(c, r). map_option (\<lambda>r'. (real_of_int r - spec_mean cand, real_of_int r' - spec_mean cand))
                   (map_of cand c))
       seed"

definition spec_similarity :: "(nat \<times> int) list \<Rightarrow> (nat \<times> int) list \<Rightarrow> real" where
  "spec_similarity seed cand =
     (let devs = spec_deviations seed cand;
          numerator = (\<Sum>(x, y)\<leftarrow>devs. x * y);
          squares_seed = (\<Sum>(x, y)\<leftarrow>devs. x\<^sup>2);
          squares_cand = (\<Sum>(x, y)\<leftarrow>devs. y\<^sup>2)
      in if squares_seed = 0 \<or> squares_cand = 0 then 0
         else numerator / sqrt (squares_seed * squares_cand))"

definition non_null :: "(nat \<times> int) list \<Rightarrow> (nat \<times> int option) list" where
  "non_null d = map (\<lambda>(c, r). (c, Some r)) d"

section \<open>Dispatch (\<^verbatim>\<open>TaskCreateView.form_valid\<close>)\<close>

text \<open>
  Lines 69 to 102: the skill matcher when some available worker matches, the similarity
  recommender seeded with the first worker of the ranking otherwise. With no available
  worker \<^verbatim>\<open>.first()\<close> is \<^verbatim>\<open>None\<close>, and \<^verbatim>\<open>top_worker.id\<close> raises \<^verbatim>\<open>AttributeError\<close>.
\<close>

definition related_workers ::
  "worker list \<Rightarrow> task list \<Rightarrow> worker list \<Rightarrow> string \<Rightarrow> error + worker list" where
  "related_workers table ts avail query =
     (if matching_workers avail query \<noteq> [] then Inr (skill_matcher ts avail query)
      else
        (case order_by_rank ts avail of
           [] \<Rightarrow> Inl AttributeError
         | top_worker # rest \<Rightarrow>
             pearson_correlation_coefficient table ts (worker_id top_worker) avail 5))"

text \<open>
  Saving a model instance: with no primary key a row is inserted under the next free
  key; with a primary key the row of that key is overwritten.
\<close>

definition next_id :: "task list \<Rightarrow> nat" where
  "next_id ts = Suc (fold max (map task_id ts) 0)"

definition save_new :: "task list \<Rightarrow> task \<Rightarrow> task list" where
  "save_new ts t = ts @ [t\<lparr>task_id := next_id ts\<rparr>]"

definition save_existing :: "task list \<Rightarrow> task \<Rightarrow> task list" where
  "save_existing ts t = map (\<lambda>row. if task_id row = task_id t then t else row) ts"

text \<open>
  The instance of the creation form: the validated fields, the customer of the
  request, and the defaults of the model for every other column.
\<close>

definition form_instance :: "nat \<Rightarrow> string \<Rightarrow> string \<Rightarrow> int \<Rightarrow> int \<Rightarrow> string \<Rightarrow> task" where
  "form_instance cust ttl descr start_t end_t loc =
     \<lparr>task_id = 0, request_id = None, customer = cust, task_worker = None, title = ttl,
      description = descr, start_time = start_t, end_time = end_t, location = loc,
      task_status = Requested, rating = None, task_hourly_rate = None, total_cost = None\<rparr>"

text \<open>
  One round of the loop of lines 110 to 118. The state is the table, the form's
  instance (one object, changed in place by every round), whether it has a primary key
  yet, and the user names collected so far.
\<close>

definition send_request ::
  "string \<Rightarrow> worker \<Rightarrow> task list \<times> task \<times> bool \<times> string list
     \<Rightarrow> task list \<times> task \<times> bool \<times> string list" where
  "send_request rid w st =
     (case st of (ts, inst, saved, top_five_workers) \<Rightarrow>
        (let t = inst\<lparr>task_worker := Some (worker_id w), request_id := Some rid,
                      task_hourly_rate := Some (hourly_rate w), task_id := next_id ts\<rparr>
         in (ts @ [t], t, True, top_five_workers @ [username w])))"

text \<open>
  The whole view. The request identifier \<^verbatim>\<open>str(uuid.uuid4())\<close> is an argument. The last
  line, \<^verbatim>\<open>super().form_valid(form)\<close>, saves the form's instance: an insertion when the
  loop never ran, an update of the last row with its own values otherwise.
\<close>

definition create_message :: "nat \<Rightarrow> string" where
  "create_message related_workers_count =
     (if related_workers_count > 0 then ''Task created successfully!''
      else ''No related workers found for the task request'')"

definition create_form_valid ::
  "worker list \<Rightarrow> task list \<Rightarrow> nat \<Rightarrow> string \<Rightarrow> string \<Rightarrow> int \<Rightarrow> int \<Rightarrow> string \<Rightarrow> string
     \<Rightarrow> task list \<times> response" where
  "create_form_valid table ts cust ttl descr start_t end_t loc rid =
     (case related_workers table ts (available_workers table ts start_t end_t) ttl of
        Inl e \<Rightarrow> (ts, Raised e)
      | Inr related \<Rightarrow>
          (case fold (send_request rid) related
                  (ts, form_instance cust ttl descr start_t end_t loc, False, []) of
             (ts', inst, saved, top_five_workers) \<Rightarrow>
               (if saved then save_existing ts' inst else save_new ts' inst,
                Success (create_message (length top_five_workers)))))"

section \<open>Status updates (\<^verbatim>\<open>TaskUpdateView\<close>, \<^verbatim>\<open>TaskStatusUpdateForm\<close>, \<^verbatim>\<open>task_accept\<close>)\<close>

text \<open>
  The dictionary \<^verbatim>\<open>valid_transitions\<close> of the form; a status that is not a key makes
  the lookup raise \<^verbatim>\<open>KeyError\<close>.
\<close>

fun valid_transitions :: "status \<Rightarrow> status list option" where
  "valid_transitions Requested = Some [InProgress, Rejected]"
| "valid_transitions InProgress = Some [Completed]"
| "valid_transitions s = None"

text \<open>
  The choices of the status field after \<^verbatim>\<open>TaskStatusUpdateForm.__init__\<close> and
  \<^verbatim>\<open>TaskUpdateView.get_form\<close>, for the stored status of the task and the query
  parameter \<^verbatim>\<open>from_requested\<close>.
\<close>

definition form_choices :: "status \<Rightarrow> bool \<Rightarrow> error + status list" where
  "form_choices current from_requested =
     (case valid_transitions current of
        None \<Rightarrow> Inl KeyError
      | Some allowed \<Rightarrow>
          Inr (if from_requested then [InProgress, Rejected]
               else if current = InProgress then [Completed]
               else filter (\<lambda>c. c \<in> set allowed) [Requested, InProgress, Completed, Rejected]))"

text \<open>
  The cost of an accepted task (lines 170 to 173):
  \<^verbatim>\<open>Decimal((end_time - start_time).total_seconds() / 3600) * hourly_rate\<close>.
  Both divisions are divisions of binary floating-point numbers (IEEE 754 binary64,
  53 significant bits, round to nearest, ties to even); the product is a product of
  \<^verbatim>\<open>Decimal\<close>s, rounded to the 28 significant digits of the default context, ties to
  even. A number is the rational it denotes; the exponent ranges are not modelled, the
  durations of tasks are far inside them.
\<close>

definition pow_int :: "rat \<Rightarrow> int \<Rightarrow> rat" where
  "pow_int b k = (if 0 \<le> k then b ^ nat k else 1 / b ^ nat (- k))"

text \<open>The integer \<open>k\<close> with \<open>b ^ k \<le> q < b ^ (k + 1)\<close>, for a positive \<open>q\<close>.\<close>

definition ilog :: "nat \<Rightarrow> rat \<Rightarrow> int" where
  "ilog b q =
     (case quotient_of q of (n, d) \<Rightarrow>
        (let k = int (floorlog b (nat n)) - int (floorlog b (nat d))
         in if pow_int (of_nat b) k \<le> q then k else k - 1))"

definition round_half_even :: "rat \<Rightarrow> int" where
  "round_half_even x =
     (let f = \<lfloor>x\<rfloor>; r = x - of_int f
      in if r < 1 / 2 then f else if r > 1 / 2 then f + 1
         else if even f then f else f + 1)"

text \<open>The nearest number with \<open>p\<close> significant digits in base \<open>b\<close>.\<close>

definition round_sig :: "nat \<Rightarrow> nat \<Rightarrow> rat \<Rightarrow> rat" where
  "round_sig b p q =
     (if q = 0 then 0
      else
        (let e = ilog b \<bar>q\<bar> - (int p - 1);
             m = round_half_even (\<bar>q\<bar> / pow_int (of_nat b) e)
         in sgn q * of_int m * pow_int (of_nat b) e))"

definition float_div :: "rat \<Rightarrow> rat \<Rightarrow> rat" where
  "float_div x y = round_sig 2 53 (x / y)"

definition decimal_mul :: "rat \<Rightarrow> rat \<Rightarrow> rat" where
  "decimal_mul x y = round_sig 10 28 (x * y)"

text \<open>\<^verbatim>\<open>timedelta.total_seconds()\<close>: the microseconds divided by \<open>10^6\<close>, as a float.\<close>

definition total_seconds :: "int \<Rightarrow> rat" where
  "total_seconds microseconds = float_div (of_int microseconds) 1000000"

definition compute_total_cost :: "int \<Rightarrow> int \<Rightarrow> rat \<Rightarrow> rat" where
  "compute_total_cost start_t end_t rate =
     decimal_mul (float_div (total_seconds (end_t - start_t)) 3600) rate"

text \<open>
  \<^verbatim>\<open>TaskUpdateView.form_valid\<close> (lines 161 to 210), for the task with the submitted
  status already set by the form and the worker profile of the logged-in user, if the
  user has one. The rows of \<^verbatim>\<open>TaskNotification\<close> are not modelled, only the exception
  that building the message raises for a task without worker.
\<close>

definition success_message :: "status \<Rightarrow> string" where
  "success_message s =
     (if s = Completed then ''Task status set to completed successfully.''
      else ''Task status set to rejected successfully.'')"

definition update_form_valid :: "task list \<Rightarrow> worker option \<Rightarrow> task \<Rightarrow> task list \<times> response" where
  "update_form_valid ts user_worker t =
     (if task_status t = InProgress then
        (case user_worker of
           None \<Rightarrow> (ts, Raised RelatedObjectDoesNotExist)
         | Some w \<Rightarrow>
             (let t' = t\<lparr>task_worker := Some (worker_id w),
                          task_hourly_rate := Some (hourly_rate w),
                          total_cost := Some (compute_total_cost (start_time t) (end_time t)
                                                (hourly_rate w))\<rparr>
              in (map (\<lambda>row. if request_id row = request_id t' \<and> task_id row \<noteq> task_id t'
                              then row\<lparr>task_status := Vanished\<rparr> else row)
                      (save_existing ts t'),
                  Redirected)))
      else if task_status t = Completed \<or> task_status t = Rejected then
        (case task_worker t of
           None \<Rightarrow> (save_existing ts t, Raised AttributeError)
         | Some wid \<Rightarrow> (save_existing ts t, Success (success_message (task_status t))))
      else (save_existing ts t, Redirected))"

text \<open>
  A POST to \<^verbatim>\<open><pk>/update/\<close>: the object is looked up, the form is built with its
  choices, and a submitted status outside the choices is refused by the form.
\<close>

definition task_update ::
  "task list \<Rightarrow> worker option \<Rightarrow> nat \<Rightarrow> bool \<Rightarrow> status \<Rightarrow> task list \<times> response" where
  "task_update ts user_worker pk from_requested submitted =
     (case find (\<lambda>t. task_id t = pk) ts of
        None \<Rightarrow> (ts, Raised Http404)
      | Some obj \<Rightarrow>
          (case form_choices (task_status obj) from_requested of
             Inl e \<Rightarrow> (ts, Raised e)
           | Inr choices \<Rightarrow>
               if submitted \<in> set choices
               then update_form_valid ts user_worker (obj\<lparr>task_status := submitted\<rparr>)
               else (ts, FormInvalid)))"

text \<open>The function view \<^verbatim>\<open>task_accept\<close> (lines 342 to 352).\<close>

definition task_accept :: "task list \<Rightarrow> worker option \<Rightarrow> nat \<Rightarrow> task list \<times> response" where
  "task_accept ts user_worker pk =
     (case find (\<lambda>t. task_id t = pk) ts of
        None \<Rightarrow> (ts, Raised Http404)
      | Some t \<Rightarrow>
          if task_worker t \<noteq> None
          then (ts, Warning ''Task is already assigned to a worker.'')
          else
            (case user_worker of
               None \<Rightarrow> (ts, Raised RelatedObjectDoesNotExist)
             | Some w \<Rightarrow>
                 (save_existing ts (t\<lparr>task_worker := Some (worker_id w), task_status := InProgress\<rparr>),
                  Success ''Task accepted successfully.'')))"

text \<open>A sequence of POSTs to the update view, each by some user.\<close>

record update_request =
  req_worker :: "worker option"
  req_pk :: nat
  req_from_requested :: bool
  req_status :: status

fun run_updates :: "task list \<Rightarrow> update_request list \<Rightarrow> task list" where
  "run_updates ts [] = ts"
| "run_updates ts (r # rs) =
     run_updates (fst (task_update ts (req_worker r) (req_pk r) (req_from_requested r)
                         (req_status r))) rs"

text \<open>
  The state of a request group the update view maintains: whenever a task is in
  progress or completed, every other task of its request group is vanished.
\<close>

definition active :: "status \<Rightarrow> bool" where
  "active s \<longleftrightarrow> s = InProgress \<or> s = Completed"

definition same_group :: "task \<Rightarrow> task \<Rightarrow> bool" where
  "same_group t t' \<longleftrightarrow> request_id t' = request_id t \<and> task_id t' \<noteq> task_id t"

definition group_resolved :: "task list \<Rightarrow> bool" where
  "group_resolved ts \<longleftrightarrow>
     list_all (\<lambda>t. active (task_status t) \<longrightarrow>
                 list_all (\<lambda>t'. same_group t t' \<longrightarrow> task_status t' = Vanished) ts) ts"

section \<open>Concrete tables used to run the model\<close>

definition hours :: "int \<Rightarrow> int" where
  "hours h = h * 3600000000"

definition mk_worker :: "nat \<Rightarrow> string \<Rightarrow> string \<Rightarrow> rat \<Rightarrow> bool \<Rightarrow> worker" where
  "mk_worker i name sk rate avail =
     \<lparr>worker_id = i, username = name, skills = sk, hourly_rate = rate, is_available = avail\<rparr>"

definition mk_task ::
  "nat \<Rightarrow> string option \<Rightarrow> nat \<Rightarrow> nat option \<Rightarrow> int \<Rightarrow> int \<Rightarrow> status \<Rightarrow> int option \<Rightarrow> task" where
  "mk_task i rid cust w start_t end_t st r =
     \<lparr>task_id = i, request_id = rid, customer = cust, task_worker = w, title = ''cleaning'',
      description = ''flat with four rooms'', start_time = start_t, end_time = end_t,
      location = ''kathmandu'', task_status = st, rating = r,
      task_hourly_rate = None, total_cost = None\<rparr>"

text \<open>
  A worker with two in-progress tasks, from 9 to 11 and from 14 to 15 o'clock.
\<close>

definition busy_worker :: worker where
  "busy_worker = mk_worker 1 ''asha'' ''cleaning'' 20 True"

definition busy_tasks :: "task list" where
  "busy_tasks =
     [mk_task 1 (Some ''r1'') 1 (Some 1) (hours 9) (hours 11) InProgress None,
      mk_task 2 (Some ''r2'') 2 (Some 1) (hours 14) (hours 15) InProgress None]"

text \<open>
  The two workers of the skill-matcher scenario: the first with three completed tasks
  and an average rating of 4.5, the second with five completed tasks and an average
  rating of 4.
\<close>

definition cleaner :: worker where
  "cleaner = mk_worker 1 ''asha'' ''cleaning'' 20 True"

definition cleaner_cook :: worker where
  "cleaner_cook = mk_worker 2 ''bibek'' ''cleaning,cooking'' 25 True"

definition skill_tasks :: "task list" where
  "skill_tasks =
     [mk_task 1 (Some ''r1'') 1 (Some 1) (hours 1) (hours 2) Completed (Some 4),
      mk_task 2 (Some ''r2'') 2 (Some 1) (hours 3) (hours 4) Completed (Some 5),
      mk_task 3 (Some ''r3'') 3 (Some 1) (hours 5) (hours 6) Completed None,
      mk_task 4 (Some ''r4'') 1 (Some 2) (hours 1) (hours 2) Completed (Some 4),
      mk_task 5 (Some ''r5'') 2 (Some 2) (hours 3) (hours 4) Completed (Some 4),
      mk_task 6 (Some ''r6'') 3 (Some 2) (hours 5) (hours 6) Completed (Some 4),
      mk_task 7 (Some ''r7'') 4 (Some 2) (hours 7) (hours 8) Completed (Some 4),
      mk_task 8 (Some ''r8'') 5 (Some 2) (hours 9) (hours 10) Completed (Some 4)]"

text \<open>A worker who is not available, and a cook, the only available worker of a table.\<close>

definition absent_worker :: worker where
  "absent_worker = mk_worker 1 ''asha'' ''cleaning'' 20 False"

definition cook :: worker where
  "cook = mk_worker 1 ''chandra'' ''cooking'' 30 True"

text \<open>Two requested tasks of one request group, sent to the workers 1 and 2.\<close>

definition worker_one :: worker where
  "worker_one = mk_worker 1 ''asha'' ''cleaning'' 20 True"

definition worker_two :: worker where
  "worker_two = mk_worker 2 ''bibek'' ''cleaning'' 25 True"

definition sibling_tasks :: "task list" where
  "sibling_tasks =
     [mk_task 1 (Some ''r1'') 1 (Some 1) (hours 8) (hours 10) Requested None,
      mk_task 2 (Some ''r1'') 1 (Some 2) (hours 8) (hours 10) Requested None]"

text \<open>Both workers reject their task; worker 1 accepts the task.\<close>

definition two_rejections :: "update_request list" where
  "two_rejections =
     [\<lparr>req_worker = Some worker_one, req_pk = 1, req_from_requested = False,
       req_status = Rejected\<rparr>,
      \<lparr>req_worker = Some worker_two, req_pk = 2, req_from_requested = False,
       req_status = Rejected\<rparr>]"

definition one_acceptance :: "update_request list" where
  "one_acceptance =
     [\<lparr>req_worker = Some worker_one, req_pk = 1, req_from_requested = False,
       req_status = InProgress\<rparr>]"

definition accepted_tasks :: "task list" where
  "accepted_tasks = run_updates sibling_tasks one_acceptance"

section \<open>Unfolding the concrete tables\<close>

lemmas example_defs = mk_worker_def mk_task_def hours_def
lemmas availability_defs = available_workers_def flagged_available_def conflicting_tasks_def
lemmas matching_defs = matching_workers_def icontains_def lower_def lower_char_def
lemmas ranking_defs = order_by_rank_def sort_desc_def ranks_before_def tasks_completed_def
  tasks_of_def avg_rating_def
section \<open>Properties of the availability filter\<close>

lemma conflicting_worker_iff:
  assumes "w \<in> set (flagged_available ws)"
  shows "Some (worker_id w) \<in> set (map task_worker (conflicting_tasks ts (flagged_available ws) s e))
         \<longleftrightarrow> has_overlapping_in_progress ts w s e"
proof
  assume "Some (worker_id w) \<in> set (map task_worker (conflicting_tasks ts (flagged_available ws) s e))"
  then obtain t where "t \<in> set ts" "task_worker t = Some (worker_id w)"
      "task_status t = InProgress" "start_time t < e" "end_time t > s"
    by (auto simp: conflicting_tasks_def)
  then show "has_overlapping_in_progress ts w s e"
    by (auto simp: has_overlapping_in_progress_def overlaps_def list_ex_iff)
next
  assume "has_overlapping_in_progress ts w s e"
  then obtain t where t: "t \<in> set ts" "task_worker t = Some (worker_id w)"
      "task_status t = InProgress" "start_time t < e" "end_time t > s"
    by (auto simp: has_overlapping_in_progress_def overlaps_def list_ex_iff)
  from assms have "Some (worker_id w) \<in> set (map (\<lambda>w. Some (worker_id w)) (flagged_available ws))"
    by auto
  with t have "t \<in> set (conflicting_tasks ts (flagged_available ws) s e)"
    by (simp add: conflicting_tasks_def)
  with t(2) show "Some (worker_id w) \<in> set (map task_worker (conflicting_tasks ts (flagged_available ws) s e))"
    by (metis image_eqI set_map)
qed

text \<open>
  C8. A worker flagged available is excluded by the availability filter exactly when
  that worker has an in-progress task whose window overlaps the requested one, under
  the test \<open>existing.start < end \<and> existing.end > start\<close>.
\<close>

theorem availability_filter_iff:
  assumes "w \<in> set ws" and "is_available w"
  shows "w \<notin> set (available_workers ws ts start_t end_t)
         \<longleftrightarrow> has_overlapping_in_progress ts w start_t end_t"
proof -
  from assms have mem: "w \<in> set (flagged_available ws)"
    by (simp add: flagged_available_def)
  have "w \<notin> set (available_workers ws ts start_t end_t)
        \<longleftrightarrow> Some (worker_id w) \<in> set (map task_worker
              (conflicting_tasks ts (flagged_available ws) start_t end_t))"
    using mem by (simp add: available_workers_def Let_def)
  with conflicting_worker_iff [OF mem] show ?thesis
    by simp
qed


text \<open>
  The boundary of the test: the worker's in-progress tasks end at 11 and start at 14
  o'clock, the requested window is from 11 to 13 o'clock, and the worker stays eligible.
\<close>

theorem availability_filter_iff_witness:
  "busy_worker \<in> set [busy_worker] \<and> is_available busy_worker
   \<and> \<not> has_overlapping_in_progress busy_tasks busy_worker (hours 11) (hours 13)
   \<and> busy_worker \<in> set (available_workers [busy_worker] busy_tasks (hours 11) (hours 13))"
proof -
  have mem: "busy_worker \<in> set [busy_worker]" and av: "is_available busy_worker"
    by (simp_all add: busy_worker_def example_defs)
  have free: "\<not> has_overlapping_in_progress busy_tasks busy_worker (hours 11) (hours 13)"
    by (simp add: has_overlapping_in_progress_def overlaps_def busy_tasks_def busy_worker_def
        example_defs)
  from availability_filter_iff [OF mem av, of busy_tasks "hours 11" "hours 13"] free
  have "busy_worker \<in> set (available_workers [busy_worker] busy_tasks (hours 11) (hours 13))"
    by blast
  with mem av free show ?thesis by blast
qed

section \<open>Properties of the skill matcher\<close>

lemma starts_with_length: "starts_with s needle \<Longrightarrow> length needle \<le> length s"
  by (induction s needle rule: starts_with.induct) auto

lemma contains_length: "contains s needle \<Longrightarrow> length needle \<le> length s"
proof (induction s)
  case Nil
  then show ?case by simp
next
  case (Cons x xs)
  then show ?case
    using starts_with_length [of "x # xs" needle] by auto
qed

text \<open>A worker matches only if the skills column is at least as long as the title.\<close>

lemma icontains_length: "icontains field query \<Longrightarrow> length query \<le> length field"
  using contains_length [of "lower field" "lower query"]
  by (simp add: icontains_def lower_def)

text \<open>
  C5, as stated: with the title \<open>need cleaning help\<close> both workers would match. The
  filter asks for the title inside the skills column, so neither does.
\<close>

theorem skill_matcher_title_counterexample:
  "matching_workers [cleaner, cleaner_cook] ''need cleaning help'' = []
   \<and> skill_matcher skill_tasks [cleaner, cleaner_cook] ''need cleaning help'' = []"
  by (simp add: skill_matcher_def matching_defs cleaner_def cleaner_cook_def example_defs
      ranking_defs)

text \<open>
  C5, amended: with the title \<open>cleaning\<close> both workers match, and the ranking puts the
  worker with five completed tasks (average rating 4) before the worker with three
  completed tasks (average rating 4.5).
\<close>

theorem skill_matcher_ranking:
  "matching_workers [cleaner, cleaner_cook] ''cleaning'' = [cleaner, cleaner_cook]
   \<and> tasks_completed skill_tasks cleaner = 3
   \<and> avg_rating skill_tasks cleaner = Some (9 / 2)
   \<and> tasks_completed skill_tasks cleaner_cook = 5
   \<and> avg_rating skill_tasks cleaner_cook = Some 4
   \<and> skill_matcher skill_tasks [cleaner, cleaner_cook] ''cleaning'' = [cleaner_cook, cleaner]"
  by code_simp

section \<open>Properties of the dispatch\<close>

text \<open>
  C6. With no available worker the seed of the similarity recommender is \<^verbatim>\<open>None\<close>, and
  the view raises \<^verbatim>\<open>AttributeError\<close> instead of reporting that no worker was found.
\<close>

theorem dispatch_no_available_worker_raises:
  "create_form_valid [absent_worker] [] 7 ''cleaning'' ''four rooms'' (hours 8) (hours 10)
     ''kathmandu'' ''r9''
   = ([], Raised AttributeError)"
  by (simp add: create_form_valid_def related_workers_def absent_worker_def example_defs
      availability_defs matching_defs order_by_rank_def sort_desc_def)

text \<open>
  C2, as stated: a dispatch without candidates would leave the task table unchanged.
  With one available worker whose skills do not match, there is no candidate, and the
  table has one row more.
\<close>

theorem no_match_store_counterexample:
  "related_workers [cook] [] (available_workers [cook] [] (hours 8) (hours 10)) ''cleaning'' = Inr []
   \<and> create_form_valid [cook] [] 7 ''cleaning'' ''four rooms'' (hours 8) (hours 10)
        ''kathmandu'' ''r9''
     = ([form_instance 7 ''cleaning'' ''four rooms'' (hours 8) (hours 10) ''kathmandu''
           \<lparr>task_id := 1\<rparr>],
        Success ''No related workers found for the task request'')"
  by (simp add: create_form_valid_def related_workers_def cook_def example_defs
      availability_defs matching_defs order_by_rank_def sort_desc_def
      pearson_correlation_coefficient_def save_new_def next_id_def create_message_def)

text \<open>
  C2, amended: a dispatch without candidates reports the no-match message and creates
  no row for any worker; the one row it persists is the submitted draft itself, with no
  worker, no request identifier and the status requested.
\<close>

theorem no_match_dispatch:
  assumes "related_workers table ts (available_workers table ts start_t end_t) ttl = Inr []"
  shows "create_form_valid table ts cust ttl descr start_t end_t loc rid
         = (ts @ [form_instance cust ttl descr start_t end_t loc \<lparr>task_id := next_id ts\<rparr>],
            Success ''No related workers found for the task request'')
         \<and> task_worker (form_instance cust ttl descr start_t end_t loc) = None
         \<and> request_id (form_instance cust ttl descr start_t end_t loc) = None
         \<and> task_status (form_instance cust ttl descr start_t end_t loc) = Requested"
  using assms
  by (simp add: create_form_valid_def save_new_def create_message_def form_instance_def)

theorem no_match_dispatch_witness:
  "related_workers [cook] [] (available_workers [cook] [] (hours 8) (hours 10)) ''cleaning'' = Inr []
   \<and> length (fst (create_form_valid [cook] [] 7 ''cleaning'' ''four rooms'' (hours 8) (hours 10)
                    ''kathmandu'' ''r9'')) = 1
   \<and> snd (create_form_valid [cook] [] 7 ''cleaning'' ''four rooms'' (hours 8) (hours 10)
            ''kathmandu'' ''r9'')
     = Success ''No related workers found for the task request''"
proof -
  have none: "related_workers [cook] [] (available_workers [cook] [] (hours 8) (hours 10))
                ''cleaning'' = Inr []"
    by (simp add: related_workers_def cook_def example_defs availability_defs matching_defs
        order_by_rank_def sort_desc_def pearson_correlation_coefficient_def)
  from no_match_dispatch [OF none, of 7 "''four rooms''" "''kathmandu''" "''r9''"] none
  show ?thesis by simp
qed

end
